theory Spec2Isabelle
  imports Complex_Main "HOL-Library.AList" "HOL-Library.Multiset" "HOL-Library.Char_ord" "HOL-Library.List_Lexorder"
begin

section \<open>MedScope backend: the data of \<open>backend/main.py\<close>\<close>

text \<open>
  The module keeps its corpus in two module-level dictionaries, \<open>processed_documents\<close>
  (filename to the list of LangChain documents, the chunks) and \<open>document_sections\<close>
  (filename to the parser's \<open>doc_info\<close> dictionary), an uploads directory on disk, the
  global \<open>rage_engine\<close> (vector store and QA chain) and the \<open>startup_state\<close> flags.

  A Python \<open>dict\<close> keeps insertion order, and the handlers iterate over
  \<open>.values()\<close> and \<open>.items()\<close>, so a dictionary is an association list:
  \<open>d[k] = v\<close> is \<open>AList.update\<close> (replace in place, or append at the end),
  \<open>del d[k]\<close> is \<open>AList.delete\<close>, \<open>k in d\<close> and \<open>d[k]\<close> are \<open>map_of\<close>.
\<close>

type_synonym bytes = string

record document =
  page_content :: string
  metadata :: "(string \<times> string) list"

text \<open>
  \<open>doc_info\<close>: the handlers read the keys \<open>metadata\<close>, \<open>sections\<close> and \<open>topics\<close>, always
  through \<open>.get(key, default)\<close> with an empty default, so an absent key and an empty value
  are the same value here.
\<close>

record doc_info =
  info_metadata :: "(string \<times> string) list"
  sections :: "(string \<times> string) list"
  topics :: "string list"

datatype http_exception = HTTPException (status_code: nat) (detail: string)

subsection \<open>The uploads directory\<close>

datatype fs_node = File bytes | Directory

type_synonym filesystem = "string \<rightharpoonup> fs_node"

definition UPLOAD_DIR :: string where
  "UPLOAD_DIR = ''uploads''"

text \<open>\<open>os.path.join\<close> on POSIX, for two components.\<close>

definition os_path_join :: "string \<Rightarrow> string \<Rightarrow> string" where
  "os_path_join a b =
     (if b \<noteq> [] \<and> hd b = CHR ''/'' then b
      else if a = [] \<or> last a = CHR ''/'' then a @ b
      else a @ ''/'' @ b)"

definition os_path_exists :: "filesystem \<Rightarrow> string \<Rightarrow> bool" where
  "os_path_exists disk p = (disk p \<noteq> None)"

text \<open>\<open>os.remove\<close>: raises \<open>OSError\<close> on a missing path and on a directory.\<close>

definition os_remove :: "filesystem \<Rightarrow> string \<Rightarrow> string + filesystem" where
  "os_remove disk p =
     (case disk p of
        None \<Rightarrow> Inl ''[Errno 2] No such file or directory''
      | Some Directory \<Rightarrow> Inl ''[Errno 21] Is a directory''
      | Some (File _) \<Rightarrow> Inr (disk(p := None)))"

text \<open>\<open>os.path.dirname\<close> on POSIX: the path up to its last slash, trailing slashes stripped.\<close>

definition os_path_dirname :: "string \<Rightarrow> string" where
  "os_path_dirname p =
     (let head = rev (dropWhile (\<lambda>c. c \<noteq> CHR ''/'') (rev p)) in
      if head \<noteq> [] \<and> \<not> list_all (\<lambda>c. c = CHR ''/'') head
      then rev (dropWhile (\<lambda>c. c = CHR ''/'') (rev head))
      else head)"

text \<open>
  \<open>open(p, "wb")\<close> followed by \<open>write\<close>: raises when the directory of the path is
  missing or is a file, and when the path itself is a directory; otherwise it creates or
  truncates the file. A path without a directory part is relative to the working
  directory, which exists.
\<close>

definition write_file :: "filesystem \<Rightarrow> string \<Rightarrow> bytes \<Rightarrow> string + filesystem" where
  "write_file disk p contents =
     (let dir = os_path_dirname p in
      if dir \<noteq> [] \<and> disk dir = None then Inl ''[Errno 2] No such file or directory''
      else if dir \<noteq> [] \<and> disk dir \<noteq> Some Directory then Inl ''[Errno 20] Not a directory''
      else
        (case disk p of
           Some Directory \<Rightarrow> Inl ''[Errno 21] Is a directory''
         | _ \<Rightarrow> Inr (disk(p \<mapsto> File contents))))"

subsection \<open>The RAG engine and the collaborators\<close>

text \<open>
  \<open>rag_engine.py\<close>, \<open>llm_services.py\<close> and \<open>enhanced_document_processor.py\<close> are
  collaborators of \<open>main.py\<close>: their methods are parameters of the model (the record
  \<open>env\<close>), each returning either the text of the exception it raised (\<open>Inl\<close>) or its
  value. The FAISS index is the triple of attributes \<open>check_index_health\<close> reads.
\<close>

record faiss_index =
  ntotal :: nat
  d :: nat
  is_trained :: bool

record faiss_store =
  index :: faiss_index
  docstore :: "document list"

record chain_output =
  answer :: "string option"
  source_documents :: "document list option"

type_synonym qa_chain = "string \<Rightarrow> string + chain_output"

record rag_engine =
  vector_store :: "faiss_store option"
  qa_chain :: "qa_chain option"
  faiss_index_path :: string

record scored_chunk =
  content :: string
  similarity :: real
  chunk_metadata :: "(string \<times> string) list"

record citation_answer =
  ca_answer :: "string option"
  ca_citations :: "string list option"

record env =
  process_pdf_enhanced :: "string \<Rightarrow> bytes \<Rightarrow> string + (document list \<times> doc_info)"
  extract_key_topics :: "string \<Rightarrow> string + string list"
  create_vector_store_from_documents :: "document list \<Rightarrow> string + faiss_store"
  setup_qa_chain :: "faiss_store \<Rightarrow> string + qa_chain"
  aembed_query :: "string \<Rightarrow> string + real list"
  embed_query :: "string \<Rightarrow> string + real list"
  cosine_similarity :: "real list \<Rightarrow> real list \<Rightarrow> real"
  answer_with_citations :: "string \<Rightarrow> scored_chunk list \<Rightarrow> string + citation_answer"
  index_search :: "faiss_index \<Rightarrow> real list \<Rightarrow> nat \<Rightarrow> string + (real list list \<times> int list list)"

record app_state =
  disk :: filesystem
  processed_documents :: "(string \<times> document list) list"
  document_sections :: "(string \<times> doc_info) list"
  rage_engine :: rag_engine

subsection \<open>Rebuilding the vector store\<close>

text \<open>
  The loop \<open>for doc_list in processed_documents.values(): all_processed_documents.extend(doc_list)\<close>.
\<close>

fun all_processed_documents :: "(string \<times> document list) list \<Rightarrow> document list" where
  "all_processed_documents [] = []"
| "all_processed_documents ((name, doc_list) # rest) = doc_list @ all_processed_documents rest"

text \<open>
  The block shared by \<open>upload_pdf\<close> and \<open>delete_file\<close>: when there is at least one chunk,
  \<open>create_vector_store_from_documents\<close> then \<open>setup_qa_chain\<close>; the result is the engine
  and the text of the exception caught, if any.

  Modelled from the spec: what \<open>create_vector_store_from_documents\<close> does to the engine
  is decided in \<open>rag_engine.py\<close>. By sections 4.2 and 7 of the specification a build
  that succeeds replaces the live index by the one built, and a build that fails leaves the
  previous index intact. \<open>setup_qa_chain\<close> builds the chain over the store just installed.
\<close>

definition update_vector_store :: "env \<Rightarrow> rag_engine \<Rightarrow> (string \<times> document list) list \<Rightarrow> rag_engine \<times> string option" where
  "update_vector_store e rag pd =
     (let docs = all_processed_documents pd in
      if docs \<noteq> [] then
        (case create_vector_store_from_documents e docs of
           Inl err \<Rightarrow> (rag, Some err)
         | Inr vs \<Rightarrow>
             (case setup_qa_chain e vs of
                Inl err \<Rightarrow> (rag\<lparr>vector_store := Some vs\<rparr>, Some err)
              | Inr qa \<Rightarrow> (rag\<lparr>vector_store := Some vs, qa_chain := Some qa\<rparr>, None)))
      else (rag, None))"

subsection \<open>\<open>delete_file\<close>\<close>

record delete_response =
  del_message :: string
  del_warning :: "string option"

definition delete_file :: "env \<Rightarrow> app_state \<Rightarrow> string \<Rightarrow> app_state \<times> (http_exception + delete_response)" where
  "delete_file e s filename =
     (let file_path = os_path_join UPLOAD_DIR filename in
      if \<not> os_path_exists (disk s) file_path then
        (s, Inl (HTTPException 404 ''File not found''))
      else
        (case os_remove (disk s) file_path of
           Inl err \<Rightarrow> (s, Inl (HTTPException 500 (''Error deleting file: '' @ err)))
         | Inr disk' \<Rightarrow>
             (let pd = (if map_of (processed_documents s) filename \<noteq> None
                        then AList.delete filename (processed_documents s)
                        else processed_documents s);
                  s1 = s\<lparr>disk := disk', processed_documents := pd\<rparr>
              in (case update_vector_store e (rage_engine s1) pd of
                    (rag, Some err) \<Rightarrow>
                      (s1\<lparr>rage_engine := rag\<rparr>,
                       Inr \<lparr>del_message = ''File deleted, but vector store update failed. Some features may be limited.'',
                            del_warning = Some err\<rparr>)
                  | (rag, None) \<Rightarrow>
                      (s1\<lparr>rage_engine := rag\<rparr>,
                       Inr \<lparr>del_message = ''File deleted successfully'', del_warning = None\<rparr>)))))"

subsection \<open>\<open>check_index_health\<close>\<close>

datatype health_report =
  Healthy (total_vectors: nat) (dimension: nat) (trained: bool) (test_search_successful: bool)
          (index_path: string) (index_file_exists: bool)
| Unhealthy (error: string)

definition check_index_health :: "env \<Rightarrow> filesystem \<Rightarrow> rag_engine \<Rightarrow> http_exception + health_report" where
  "check_index_health e dsk rag =
     (case vector_store rag of
        None \<Rightarrow> Inl (HTTPException 400 ''Vector store not initialized'')
      | Some vs \<Rightarrow>
          (case embed_query e ''This is a test query'' of
             Inl err \<Rightarrow> Inr (Unhealthy err)
           | Inr test_embedding \<Rightarrow>
               (case index_search e (index vs) test_embedding 1 of
                  Inl err \<Rightarrow> Inr (Unhealthy err)
                | Inr (D, I) \<Rightarrow>
                    Inr (Healthy (ntotal (index vs)) (d (index vs)) (is_trained (index vs))
                           (length D > 0 \<and> length I > 0)
                           (faiss_index_path rag)
                           (os_path_exists dsk (faiss_index_path rag))))))"

subsection \<open>\<open>query_papers\<close>\<close>

record query_request =
  query :: string
  filenames :: "string list option"

record source_entry =
  src_content :: string
  src_metadata :: "(string \<times> string) list"

record query_response =
  qr_message :: string
  qr_sources :: "source_entry list"

text \<open>
  \<open>rage_engine.qa_chain.ainvoke\<close> on a chain that is \<open>None\<close> raises inside the \<open>try\<close>; the
  handler then answers 503. Any other exception of the chain is answered with 500.
\<close>

definition query_papers :: "rag_engine \<Rightarrow> query_request \<Rightarrow> http_exception + query_response" where
  "query_papers rag request =
     (if filenames request = None \<or> filenames request = Some [] then
        Inl (HTTPException 400 ''No papers specified for query'')
      else
        (case qa_chain rag of
           None \<Rightarrow> Inl (HTTPException 503 ''RAG system not ready. Please upload and process a document.'')
         | Some chain \<Rightarrow>
             (case chain (query request) of
                Inl err \<Rightarrow> Inl (HTTPException 500 (''Error during RAG query: '' @ err))
              | Inr chain_out \<Rightarrow>
                  Inr \<lparr>qr_message = (case answer chain_out of None \<Rightarrow> ''Could not find an answer.'' | Some a \<Rightarrow> a),
                       qr_sources = map (\<lambda>doc. \<lparr>src_content = page_content doc, src_metadata = metadata doc\<rparr>)
                                      (case source_documents chain_out of None \<Rightarrow> [] | Some ds \<Rightarrow> ds)\<rparr>)))"

text \<open>The specification's notion of a blank text: no character other than white space.\<close>

definition blank :: "string \<Rightarrow> bool" where
  "blank t = list_all (\<lambda>c. c \<in> set [CHR '' '', CHR 0x09, CHR 0x0A, CHR 0x0D]) t"

subsection \<open>\<open>upload_pdf\<close>\<close>

record upload_file =
  uf_filename :: "string option"
  uf_contents :: bytes

record upload_response =
  up_filename :: string
  up_message :: string
  up_warning :: "string option"

definition endswith :: "string \<Rightarrow> string \<Rightarrow> bool" where
  "endswith s suffix = (take (length suffix) (rev s) = rev suffix)"

text \<open>\<open>'\n'.join(parts)\<close>.\<close>

fun join_lines :: "string list \<Rightarrow> string" where
  "join_lines [] = []"
| "join_lines [p] = p"
| "join_lines (p # q # ps) = p @ [CHR 0x0A] @ join_lines (q # ps)"

text \<open>
  The handler of the first \<open>try\<close> (saving): remove the partial file if it exists, ignoring
  \<open>OSError\<close>, and answer 500.
\<close>

definition saving_failed :: "app_state \<Rightarrow> string \<Rightarrow> string \<Rightarrow> app_state \<times> (http_exception + upload_response)" where
  "saving_failed s file_path err =
     ((if os_path_exists (disk s) file_path then
         (case os_remove (disk s) file_path of Inl _ \<Rightarrow> s | Inr disk' \<Rightarrow> s\<lparr>disk := disk'\<rparr>)
       else s),
      Inl (HTTPException 500 (''Error saving file: '' @ err)))"

text \<open>
  The handler of the second \<open>try\<close> (processing): remove the uploaded file, logging an
  \<open>OSError\<close>, and answer 500.
\<close>

definition processing_failed :: "app_state \<Rightarrow> string \<Rightarrow> string \<Rightarrow> app_state \<times> (http_exception + upload_response)" where
  "processing_failed s file_path err =
     ((case os_remove (disk s) file_path of Inl _ \<Rightarrow> s | Inr disk' \<Rightarrow> s\<lparr>disk := disk'\<rparr>),
      Inl (HTTPException 500 (''Error processing PDF: '' @ err)))"

text \<open>
  The second \<open>try\<close> block. An \<open>HTTPException\<close> raised inside it is caught by its own
  \<open>except Exception\<close>; its text is Starlette's rendering, status then detail.
  \<open>doc_info['topics'] = topics\<close> mutates the dictionary already stored in
  \<open>document_sections\<close>.
\<close>

definition process_uploaded :: "env \<Rightarrow> app_state \<Rightarrow> string \<Rightarrow> string \<Rightarrow> bytes \<Rightarrow> app_state \<times> (http_exception + upload_response)" where
  "process_uploaded e s filename file_path contents =
     (case process_pdf_enhanced e file_path contents of
        Inl err \<Rightarrow> processing_failed s file_path err
      | Inr (lc_documents, info) \<Rightarrow>
          if lc_documents = [] then
            processing_failed s file_path ''400: Could not extract any content from the PDF''
          else
            (let s2 = s\<lparr>processed_documents := AList.update filename lc_documents (processed_documents s),
                        document_sections := AList.update filename info (document_sections s)\<rparr>;
                 full_text = join_lines (map page_content (take 5 lc_documents))
             in (case extract_key_topics e full_text of
                   Inl err \<Rightarrow> processing_failed s2 file_path err
                 | Inr tps \<Rightarrow>
                     (let s3 = s2\<lparr>document_sections :=
                                    AList.update filename (info\<lparr>topics := tps\<rparr>) (document_sections s2)\<rparr>
                      in (case update_vector_store e (rage_engine s3) (processed_documents s3) of
                            (rag, Some err) \<Rightarrow>
                              (s3\<lparr>rage_engine := rag\<rparr>,
                               Inr \<lparr>up_filename = filename,
                                    up_message = ''File uploaded and processed, but vector store update failed. Some features may be limited.'',
                                    up_warning = Some err\<rparr>)
                          | (rag, None) \<Rightarrow>
                              (s3\<lparr>rage_engine := rag\<rparr>,
                               Inr \<lparr>up_filename = filename,
                                    up_message = ''File uploaded and processed successfully'',
                                    up_warning = None\<rparr>))))))"

text \<open>
  \<open>upload_pdf\<close>; \<open>timestamp\<close> is \<open>datetime.now().strftime("%Y%m%d_%H%M%S")\<close>.
\<close>

definition upload_pdf :: "env \<Rightarrow> app_state \<Rightarrow> string \<Rightarrow> upload_file \<Rightarrow> app_state \<times> (http_exception + upload_response)" where
  "upload_pdf e s timestamp file =
     (case uf_filename file of
        None \<Rightarrow> (s, Inl (HTTPException 400 ''Only PDF files are allowed''))
      | Some name \<Rightarrow>
          if name = [] \<or> \<not> endswith name ''.pdf'' then
            (s, Inl (HTTPException 400 ''Only PDF files are allowed''))
          else
            (let filename = timestamp @ ''_'' @ name;
                 file_path = os_path_join UPLOAD_DIR filename
             in if uf_contents file = [] then
                  saving_failed s file_path ''400: Uploaded file is empty''
                else
                  (case write_file (disk s) file_path (uf_contents file) of
                     Inl err \<Rightarrow> saving_failed s file_path err
                   | Inr disk1 \<Rightarrow>
                       (let s1 = s\<lparr>disk := disk1\<rparr> in
                        if \<not> os_path_exists disk1 file_path then
                          saving_failed s1 file_path ''500: File save verification failed''
                        else process_uploaded e s1 filename file_path (uf_contents file)))))"

subsection \<open>\<open>get_sentence_explanation\<close> and \<open>query_document\<close>\<close>

text \<open>
  The loop over the chunks of one document: embed the chunk, take its cosine similarity
  with the embedded sentence, append the scored entry. An exception of the embedder leaves
  the loop.
\<close>

fun score_chunks :: "env \<Rightarrow> real list \<Rightarrow> document list \<Rightarrow> string + scored_chunk list" where
  "score_chunks e q [] = Inr []"
| "score_chunks e q (doc # docs) =
     (case aembed_query e (page_content doc) of
        Inl err \<Rightarrow> Inl err
      | Inr chunk_embedding \<Rightarrow>
          (case score_chunks e q docs of
             Inl err \<Rightarrow> Inl err
           | Inr rest \<Rightarrow>
               Inr (\<lparr>content = page_content doc,
                     similarity = cosine_similarity e q chunk_embedding,
                     chunk_metadata = metadata doc\<rparr> # rest)))"

text \<open>
  \<open>similarities.sort(key=lambda x: x["similarity"], reverse=True)\<close>. Python's sort is
  stable, also with \<open>reverse=True\<close>: entries with equal keys keep their order. That is the
  stable ascending sort on the negated key.
\<close>

definition sort_reverse :: "('a \<Rightarrow> real) \<Rightarrow> 'a list \<Rightarrow> 'a list" where
  "sort_reverse key xs = sort_key (\<lambda>x. - key x) xs"

record explanation_request =
  er_filename :: string
  er_sentence :: string

record explanation =
  source_chunks :: "scored_chunk list"
  confidence :: real

definition get_sentence_explanation :: "env \<Rightarrow> (string \<times> document list) list \<Rightarrow> explanation_request \<Rightarrow> http_exception + explanation" where
  "get_sentence_explanation e pd request =
     (case map_of pd (er_filename request) of
        None \<Rightarrow> Inl (HTTPException 404 ''Processed data not found for this file.'')
      | Some document_chunks \<Rightarrow>
          (case aembed_query e (er_sentence request) of
             Inl err \<Rightarrow> Inl (HTTPException 500 (''Error getting sentence explanation: '' @ err))
           | Inr sentence_embedding \<Rightarrow>
               (case score_chunks e sentence_embedding document_chunks of
                  Inl err \<Rightarrow> Inl (HTTPException 500 (''Error getting sentence explanation: '' @ err))
                | Inr similarities \<Rightarrow>
                    (let top_chunks = take 3 (sort_reverse similarity similarities);
                         conf = (if top_chunks \<noteq> []
                                 then sum_list (map similarity top_chunks) / real (length top_chunks)
                                 else 0)
                     in Inr \<lparr>source_chunks = top_chunks, confidence = conf\<rparr>))))"

record query_doc_request =
  qd_question :: string
  qd_document_id :: string

record query_doc_response =
  qd_answer :: string
  qd_citations :: "string list"
  qd_response_document_id :: string

text \<open>
  The retrieval half of \<open>query_document\<close>: the five chunks of the document most similar
  to the question. These are what the handler hands to \<open>answer_with_citations\<close>.
\<close>

definition relevant_chunks :: "env \<Rightarrow> (string \<times> document list) list \<Rightarrow> query_doc_request \<Rightarrow> http_exception + scored_chunk list" where
  "relevant_chunks e pd request =
     (case map_of pd (qd_document_id request) of
        None \<Rightarrow> Inl (HTTPException 404 ''Document not found'')
      | Some doc_chunks \<Rightarrow>
          (case aembed_query e (qd_question request) of
             Inl err \<Rightarrow> Inl (HTTPException 500 (''Error querying document: '' @ err))
           | Inr query_embedding \<Rightarrow>
               (case score_chunks e query_embedding doc_chunks of
                  Inl err \<Rightarrow> Inl (HTTPException 500 (''Error querying document: '' @ err))
                | Inr similarities \<Rightarrow> Inr (take 5 (sort_reverse similarity similarities)))))"

definition query_document :: "env \<Rightarrow> (string \<times> document list) list \<Rightarrow> query_doc_request \<Rightarrow> http_exception + query_doc_response" where
  "query_document e pd request =
     (case relevant_chunks e pd request of
        Inl exc \<Rightarrow> Inl exc
      | Inr chunks \<Rightarrow>
          (case answer_with_citations e (qd_question request) chunks of
             Inl err \<Rightarrow> Inl (HTTPException 500 (''Error querying document: '' @ err))
           | Inr answer_result \<Rightarrow>
               Inr \<lparr>qd_answer = (case ca_answer answer_result of None \<Rightarrow> [] | Some a \<Rightarrow> a),
                    qd_citations = (case ca_citations answer_result of None \<Rightarrow> [] | Some cs \<Rightarrow> cs),
                    qd_response_document_id = qd_document_id request\<rparr>))"

subsection \<open>\<open>get_related_documents\<close>\<close>

text \<open>
  \<open>common_topics\<close> is \<open>list(target_topics.intersection(other_topics))\<close>, a list in the
  iteration order of a Python set, which is not specified: the entry carries the set.
\<close>

record related_entry =
  rel_filename :: string
  rel_title :: string
  common_topics :: "string set"
  similarity_score :: real

definition title_of :: "doc_info \<Rightarrow> string \<Rightarrow> string" where
  "title_of info other_filename =
     (case map_of (info_metadata info) ''title'' of None \<Rightarrow> other_filename | Some t \<Rightarrow> t)"

text \<open>The loop over \<open>document_sections.items()\<close>.\<close>

fun related_loop :: "string \<Rightarrow> string set \<Rightarrow> (string \<times> doc_info) list \<Rightarrow> related_entry list" where
  "related_loop filename target_topics [] = []"
| "related_loop filename target_topics ((other_filename, other_info) # rest) =
     (if other_filename \<noteq> filename \<and> card (target_topics \<inter> set (topics other_info)) > 0
      then [\<lparr>rel_filename = other_filename,
             rel_title = title_of other_info other_filename,
             common_topics = target_topics \<inter> set (topics other_info),
             similarity_score = real (card (target_topics \<inter> set (topics other_info)))
                                / real (card (target_topics \<union> set (topics other_info)))\<rparr>]
      else [])
     @ related_loop filename target_topics rest"

definition get_related_documents :: "(string \<times> doc_info) list \<Rightarrow> string \<Rightarrow> http_exception + related_entry list" where
  "get_related_documents ds filename =
     (case map_of ds filename of
        None \<Rightarrow> Inl (HTTPException 404 ''Document not found'')
      | Some info \<Rightarrow>
          (let target_topics = set (topics info) in
           if target_topics = {} then Inr []
           else Inr (take 5 (sort_reverse similarity_score (related_loop filename target_topics ds)))))"

text \<open>The specification's score: the Jaccard index of two topic sets.\<close>

definition jaccard :: "string set \<Rightarrow> string set \<Rightarrow> real" where
  "jaccard A B = real (card (A \<inter> B)) / real (card (A \<union> B))"

text \<open>
  The specification's tie-break, read either way: among entries of equal score the
  document ids ascend, or they descend.
\<close>

definition ties_broken_by_document_id :: "related_entry list \<Rightarrow> bool" where
  "ties_broken_by_document_id r =
     (sorted_wrt (\<lambda>a b. similarity_score a = similarity_score b \<longrightarrow> rel_filename a < rel_filename b) r
      \<or> sorted_wrt (\<lambda>a b. similarity_score a = similarity_score b \<longrightarrow> rel_filename a > rel_filename b) r)"

subsection \<open>Startup\<close>

text \<open>
  \<open>startup_event\<close> runs synchronously and creates the task \<open>delayed_initialization\<close>.
  That task sleeps, then, without awaiting anything further, creates the two subtasks
  (\<open>asyncio.create_task\<close> schedules a task; it runs only once the creator yields) and
  clears \<open>startup_in_progress\<close> in its \<open>finally\<close>. Each subtask later settles: by
  success, which sets its flag, by an exception or by a timeout.

  The event loop is a machine whose state is the flags and the numbers of tasks of each
  kind created and not yet finished; an event is one uninterrupted run of a task.
\<close>

record startup_state =
  faiss_initialized :: bool
  arxiv_initialized :: bool
  startup_in_progress :: bool
  pending_delayed_initialization :: nat
  pending_faiss_load :: nat
  pending_arxiv_init :: nat

datatype outcome = Success | Failure | Timeout

datatype event =
  StartupEvent
| DelayedInitializationRuns
| FaissLoadSettles outcome
| ArxivInitSettles outcome

definition initial_startup_state :: startup_state where
  "initial_startup_state =
     \<lparr>faiss_initialized = False, arxiv_initialized = False, startup_in_progress = False,
      pending_delayed_initialization = 0, pending_faiss_load = 0, pending_arxiv_init = 0\<rparr>"

definition startup_event :: "startup_state \<Rightarrow> startup_state" where
  "startup_event s =
     (if startup_in_progress s then s
      else s\<lparr>startup_in_progress := True,
             pending_delayed_initialization := pending_delayed_initialization s + 1\<rparr>)"

definition delayed_initialization :: "startup_state \<Rightarrow> startup_state" where
  "delayed_initialization s =
     (let s1 = (if \<not> faiss_initialized s then s\<lparr>pending_faiss_load := pending_faiss_load s + 1\<rparr> else s);
          s2 = (if \<not> arxiv_initialized s1 then s1\<lparr>pending_arxiv_init := pending_arxiv_init s1 + 1\<rparr> else s1)
      in s2\<lparr>startup_in_progress := False,
             pending_delayed_initialization := pending_delayed_initialization s2 - 1\<rparr>)"

definition load_faiss_index_background :: "outcome \<Rightarrow> startup_state \<Rightarrow> startup_state" where
  "load_faiss_index_background out s =
     (let s1 = s\<lparr>pending_faiss_load := pending_faiss_load s - 1\<rparr> in
      if faiss_initialized s then s1
      else (case out of Success \<Rightarrow> s1\<lparr>faiss_initialized := True\<rparr> | _ \<Rightarrow> s1))"

definition initialize_arxiv_search_background :: "outcome \<Rightarrow> startup_state \<Rightarrow> startup_state" where
  "initialize_arxiv_search_background out s =
     (let s1 = s\<lparr>pending_arxiv_init := pending_arxiv_init s - 1\<rparr> in
      if arxiv_initialized s then s1
      else (case out of Success \<Rightarrow> s1\<lparr>arxiv_initialized := True\<rparr> | _ \<Rightarrow> s1))"

text \<open>An event is enabled only when a task of its kind is pending.\<close>

fun step :: "event \<Rightarrow> startup_state \<Rightarrow> startup_state option" where
  "step StartupEvent s = Some (startup_event s)"
| "step DelayedInitializationRuns s =
     (if pending_delayed_initialization s > 0 then Some (delayed_initialization s) else None)"
| "step (FaissLoadSettles out) s =
     (if pending_faiss_load s > 0 then Some (load_faiss_index_background out s) else None)"
| "step (ArxivInitSettles out) s =
     (if pending_arxiv_init s > 0 then Some (initialize_arxiv_search_background out s) else None)"

fun run :: "event list \<Rightarrow> startup_state \<Rightarrow> startup_state option" where
  "run [] s = Some s"
| "run (ev # evs) s = (case step ev s of None \<Rightarrow> None | Some s' \<Rightarrow> run evs s')"

text \<open>The claim under test: the flag is never false while a subtask is unsettled.\<close>

definition flag_covers_subtasks :: "startup_state \<Rightarrow> bool" where
  "flag_covers_subtasks s =
     (pending_faiss_load s = 0 \<and> pending_arxiv_init s = 0 \<or> startup_in_progress s)"

section \<open>Concrete corpora and collaborators\<close>

text \<open>
  A small instance of the collaborators and of the application state, on which the
  properties below are exercised.
\<close>

definition chunk_a :: document where
  "chunk_a = \<lparr>page_content = ''alpha'', metadata = [(''filename'', ''a.pdf'')]\<rparr>"

definition chunk_b :: document where
  "chunk_b = \<lparr>page_content = ''beta'', metadata = [(''filename'', ''b.pdf'')]\<rparr>"

definition store_of :: "document list \<Rightarrow> faiss_store" where
  "store_of docs = \<lparr>index = \<lparr>ntotal = length docs, d = 4, is_trained = True\<rparr>, docstore = docs\<rparr>"

definition echo_chain :: "faiss_store \<Rightarrow> qa_chain" where
  "echo_chain vs = (\<lambda>question. Inr \<lparr>answer = Some ''no answer'', source_documents = Some (docstore vs)\<rparr>)"

definition embed0 :: "string \<Rightarrow> string + real list" where
  "embed0 t =
     (if t = ''probe'' then Inr [1, 0, 0, 0]
      else if t = ''c0'' then Inr [9/10, 3/10, 3/10, 1/10]
      else if t = ''c1'' then Inr [4/10, 8/10, 4/10, 2/10]
      else if t = ''c2'' then Inr [8/10, 6/10, 0, 0]
      else if t = ''c3'' then Inr [1/10, 9/10, 3/10, 3/10]
      else if t = ''This is a test query'' then Inr [0, 1, 0, 0]
      else Inl ''EmbeddingServiceError'')"

text \<open>On vectors of length one the cosine similarity is the inner product.\<close>

definition dot :: "real list \<Rightarrow> real list \<Rightarrow> real" where
  "dot u v = sum_list (map (\<lambda>(x, y). x * y) (zip u v))"

definition env0 :: env where
  "env0 =
     \<lparr>process_pdf_enhanced =
        (\<lambda>path contents. if contents = ''%PDF'' then Inr ([\<lparr>page_content = ''alpha'', metadata = [(''filename'', path)]\<rparr>],
                                                       \<lparr>info_metadata = [], sections = [], topics = []\<rparr>)
                         else Inl ''cannot open broken document''),
      extract_key_topics = (\<lambda>t. Inr [''therapy'']),
      create_vector_store_from_documents = (\<lambda>docs. Inr (store_of docs)),
      setup_qa_chain = (\<lambda>vs. Inr (echo_chain vs)),
      aembed_query = embed0,
      embed_query = embed0,
      cosine_similarity = dot,
      answer_with_citations = (\<lambda>question chunks. Inr \<lparr>ca_answer = Some ''ok'', ca_citations = Some (map content chunks)\<rparr>),
      index_search = (\<lambda>ix v k. Inr ([[0]], [[0]]))\<rparr>"

definition rag_empty :: rag_engine where
  "rag_empty = \<lparr>vector_store = None, qa_chain = None, faiss_index_path = ''faiss_index''\<rparr>"

definition rag_a :: rag_engine where
  "rag_a = \<lparr>vector_store = Some (store_of [chunk_a]), qa_chain = Some (echo_chain (store_of [chunk_a])),
            faiss_index_path = ''faiss_index''\<rparr>"

definition state_a :: app_state where
  "state_a = \<lparr>disk = [''uploads'' \<mapsto> Directory, ''uploads/a.pdf'' \<mapsto> File ''%PDF''],
              processed_documents = [(''a.pdf'', [chunk_a])],
              document_sections = [(''a.pdf'', \<lparr>info_metadata = [], sections = [], topics = [''therapy'']\<rparr>)],
              rage_engine = rag_a\<rparr>"

definition state_ab :: app_state where
  "state_ab = \<lparr>disk = [''uploads'' \<mapsto> Directory, ''uploads/a.pdf'' \<mapsto> File ''%PDF'',
                       ''uploads/b.pdf'' \<mapsto> File ''%PDF''],
               processed_documents = [(''a.pdf'', [chunk_a]), (''b.pdf'', [chunk_b])],
               document_sections = [],
               rage_engine = rag_a\<rparr>"

text \<open>A corpus record without its file, and a file without a corpus record.\<close>

definition state_orphans :: app_state where
  "state_orphans = \<lparr>disk = [''uploads'' \<mapsto> Directory, ''uploads/x.pdf'' \<mapsto> File ''%PDF''],
                    processed_documents = [(''b.pdf'', [chunk_b])],
                    document_sections = [],
                    rage_engine = rag_a\<rparr>"


definition env_embed_fail :: env where
  "env_embed_fail = env0\<lparr>embed_query := (\<lambda>t. Inl ''EmbeddingServiceError'')\<rparr>"



text \<open>An upload whose name has a directory part that does not exist under the uploads directory.\<close>

definition upload_nested :: upload_file where
  "upload_nested = \<lparr>uf_filename = Some ''sub/p.pdf'', uf_contents = ''%PDF''\<rparr>"

text \<open>
  The specification's scored entry of a chunk: its text and metadata, with the cosine
  similarity of the sentence embedding and the chunk's embedding.
\<close>

definition scored_entry :: "env \<Rightarrow> real list \<Rightarrow> document \<Rightarrow> scored_chunk" where
  "scored_entry e q doc =
     \<lparr>content = page_content doc,
      similarity = (case aembed_query e (page_content doc) of
                      Inl _ \<Rightarrow> 0
                    | Inr chunk_embedding \<Rightarrow> cosine_similarity e q chunk_embedding),
      chunk_metadata = metadata doc\<rparr>"

text \<open>
  The document of the specification's scenario: four chunks whose cosine similarities to
  the probe sentence are 0.9, 0.4, 0.8 and 0.1.
\<close>

definition doc_d1 :: "document list" where
  "doc_d1 = [\<lparr>page_content = ''c0'', metadata = [(''filename'', ''D1'')]\<rparr>,
             \<lparr>page_content = ''c1'', metadata = [(''filename'', ''D1'')]\<rparr>,
             \<lparr>page_content = ''c2'', metadata = [(''filename'', ''D1'')]\<rparr>,
             \<lparr>page_content = ''c3'', metadata = [(''filename'', ''D1'')]\<rparr>]"

definition corpus_d1 :: "(string \<times> document list) list" where
  "corpus_d1 = [(''D0'', [chunk_a]), (''D1'', doc_d1)]"

text \<open>
  The specification's entry for another document: its id, its title, the common topics and
  the Jaccard index of the two topic sets.
\<close>

definition related_entry_of :: "string set \<Rightarrow> string \<times> doc_info \<Rightarrow> related_entry" where
  "related_entry_of target_topics other =
     \<lparr>rel_filename = fst other,
      rel_title = title_of (snd other) (fst other),
      common_topics = target_topics \<inter> set (topics (snd other)),
      similarity_score = jaccard target_topics (set (topics (snd other)))\<rparr>"

text \<open>The other documents sharing at least one topic, in the order of the map.\<close>

definition overlapping :: "(string \<times> doc_info) list \<Rightarrow> string \<Rightarrow> string set \<Rightarrow> (string \<times> doc_info) list" where
  "overlapping ds filename target_topics =
     filter (\<lambda>other. fst other \<noteq> filename \<and> target_topics \<inter> set (topics (snd other)) \<noteq> {}) ds"

definition info_of :: "string list \<Rightarrow> doc_info" where
  "info_of ts = \<lparr>info_metadata = [], sections = [], topics = ts\<rparr>"

text \<open>The specification's scenario of two documents sharing one topic.\<close>

definition sections_d1_d2 :: "(string \<times> doc_info) list" where
  "sections_d1_d2 = [(''D1'', info_of [''cancer'', ''therapy'']), (''D2'', info_of [''therapy'', ''genomics''])]"

text \<open>Three documents tie; the map holds them in the order D3, D4, D2.\<close>

definition sections_ties :: "(string \<times> doc_info) list" where
  "sections_ties = [(''D1'', info_of [''cancer'', ''therapy'']),
                    (''D3'', info_of [''therapy'']),
                    (''D4'', info_of [''therapy'']),
                    (''D2'', info_of [''therapy''])]"

text \<open>Seven documents: A and B share one topic, and five documents have B's topics.\<close>

definition sections_seven :: "(string \<times> doc_info) list" where
  "sections_seven = [(''A'', info_of [''t'', ''x'']),
                     (''B'', info_of [''t'', ''u'']),
                     (''C1'', info_of [''t'', ''u'']),
                     (''C2'', info_of [''t'', ''u'']),
                     (''C3'', info_of [''t'', ''u'']),
                     (''C4'', info_of [''t'', ''u'']),
                     (''C5'', info_of [''t'', ''u''])]"

section \<open>Properties\<close>

subsection \<open>Index health\<close>

text \<open>
  Claim C7 as stated fails: with no vector store the handler raises HTTP 400 instead of
  returning a report with a vector count of zero.
\<close>

theorem check_index_health_no_index_fails:
  "check_index_health env0 Map.empty rag_empty = Inl (HTTPException 400 ''Vector store not initialized'')"
  by (simp add: check_index_health_def rag_empty_def)

text \<open>
  Claim C7, amended: with no vector store \<open>check_index_health\<close> fails with HTTP 400
  "Vector store not initialized". With a vector store it never fails: when the test
  embedding and the test search succeed it returns the healthy report carrying the index's
  vector count, dimension and trained flag, whether the search returned anything, the index
  path and whether that path exists; when the test embedding or the test search raises, it
  returns the unhealthy report carrying that error.
\<close>

theorem check_index_health_reports:
  "(vector_store rag = None \<longrightarrow>
      check_index_health e dsk rag = Inl (HTTPException 400 ''Vector store not initialized''))
   \<and> (vector_store rag \<noteq> None \<longrightarrow> (\<exists>report. check_index_health e dsk rag = Inr report))
   \<and> (vector_store rag = Some vs \<and> embed_query e ''This is a test query'' = Inr emb
        \<and> index_search e (index vs) emb 1 = Inr (D, I) \<longrightarrow>
      check_index_health e dsk rag
        = Inr (Healthy (ntotal (index vs)) (d (index vs)) (is_trained (index vs))
                 (D \<noteq> [] \<and> I \<noteq> []) (faiss_index_path rag) (dsk (faiss_index_path rag) \<noteq> None)))
   \<and> (vector_store rag = Some vs \<and> embed_query e ''This is a test query'' = Inl err \<longrightarrow>
      check_index_health e dsk rag = Inr (Unhealthy err))
   \<and> (vector_store rag = Some vs \<and> embed_query e ''This is a test query'' = Inr emb
        \<and> index_search e (index vs) emb 1 = Inl err \<longrightarrow>
      check_index_health e dsk rag = Inr (Unhealthy err))"
  by (auto simp: check_index_health_def os_path_exists_def split: option.splits sum.splits prod.splits)

theorem check_index_health_reports_witness:
  "vector_store rag_a = Some (store_of [chunk_a])
   \<and> check_index_health env0 Map.empty rag_a = Inr (Healthy 1 4 True True ''faiss_index'' False)
   \<and> check_index_health env_embed_fail Map.empty rag_a = Inr (Unhealthy ''EmbeddingServiceError'')
   \<and> vector_store rag_empty = None
   \<and> check_index_health env0 Map.empty rag_empty = Inl (HTTPException 400 ''Vector store not initialized'')"
proof -
  have v: "vector_store rag_a = Some (store_of [chunk_a])" by (simp add: rag_a_def)
  have n: "vector_store rag_empty = None" by (simp add: rag_empty_def)
  have em: "embed_query env0 ''This is a test query'' = Inr [0, 1, 0, 0]"
    by (simp add: env0_def embed0_def)
  have se: "index_search env0 (index (store_of [chunk_a])) [0, 1, 0, 0] 1 = Inr ([[0]], [[0]])"
    by (simp add: env0_def)
  have ef: "embed_query env_embed_fail ''This is a test query'' = Inl ''EmbeddingServiceError''"
    by (simp add: env_embed_fail_def)
  from check_index_health_reports [where rag = rag_a and e = env0 and dsk = Map.empty
      and vs = "store_of [chunk_a]" and emb = "[0, 1, 0, 0]" and D = "[[0]]" and I = "[[0]]"] v em se
  have healthy: "check_index_health env0 Map.empty rag_a = Inr (Healthy 1 4 True True ''faiss_index'' False)"
    by (simp add: store_of_def rag_a_def)
  from check_index_health_reports [where rag = rag_a and e = env_embed_fail and dsk = Map.empty
      and vs = "store_of [chunk_a]" and err = "''EmbeddingServiceError''"] v ef
  have unhealthy: "check_index_health env_embed_fail Map.empty rag_a = Inr (Unhealthy ''EmbeddingServiceError'')"
    by simp
  from check_index_health_reports [where rag = rag_empty and e = env0 and dsk = Map.empty] n
  have none: "check_index_health env0 Map.empty rag_empty = Inl (HTTPException 400 ''Vector store not initialized'')"
    by simp
  from v healthy unhealthy n none show ?thesis by blast
qed

subsection \<open>Queries over the whole corpus\<close>

text \<open>
  Claim C6 as stated fails: a blank query text with a paper selected is handed to the
  chain and answered.
\<close>

theorem query_papers_blank_query_answered:
  "blank '' '' \<and>
   query_papers rag_a \<lparr>query = '' '', filenames = Some [''a.pdf'']\<rparr>
     = Inr \<lparr>qr_message = ''no answer'',
            qr_sources = [\<lparr>src_content = ''alpha'', src_metadata = [(''filename'', ''a.pdf'')]\<rparr>]\<rparr>"
  by (simp add: query_papers_def rag_a_def echo_chain_def store_of_def chunk_a_def blank_def)

text \<open>
  Claim C6, amended: \<open>query_papers\<close> rejects a request whose list of papers is absent or
  empty with HTTP 400 "No papers specified for query", before the chain is used. It does
  not inspect the query text: with a paper selected, the text, blank or not, is handed to
  the QA chain as it is, and the response is the chain's answer (or "Could not find an
  answer.") with the chain's source documents; a chain that raises is answered with HTTP
  500, a missing chain with HTTP 503.
\<close>

theorem query_papers_checks_filenames_only:
  "(filenames request = None \<or> filenames request = Some [] \<longrightarrow>
      query_papers rag request = Inl (HTTPException 400 ''No papers specified for query''))
   \<and> (filenames request = Some (f # fs) \<and> qa_chain rag = Some chain \<and> chain (query request) = Inr out \<longrightarrow>
      query_papers rag request
        = Inr \<lparr>qr_message = (case answer out of None \<Rightarrow> ''Could not find an answer.'' | Some a \<Rightarrow> a),
               qr_sources = map (\<lambda>doc. \<lparr>src_content = page_content doc, src_metadata = metadata doc\<rparr>)
                              (case source_documents out of None \<Rightarrow> [] | Some ds \<Rightarrow> ds)\<rparr>)
   \<and> (filenames request = Some (f # fs) \<and> qa_chain rag = Some chain \<and> chain (query request) = Inl err \<longrightarrow>
      query_papers rag request = Inl (HTTPException 500 (''Error during RAG query: '' @ err)))
   \<and> (filenames request = Some (f # fs) \<and> qa_chain rag = None \<longrightarrow>
      query_papers rag request
        = Inl (HTTPException 503 ''RAG system not ready. Please upload and process a document.''))"
  by (auto simp: query_papers_def)

theorem query_papers_checks_filenames_only_witness:
  "query_papers rag_a \<lparr>query = ''dose?'', filenames = Some []\<rparr>
     = Inl (HTTPException 400 ''No papers specified for query'')
   \<and> blank '' ''
   \<and> echo_chain (store_of [chunk_a]) '' '' = Inr \<lparr>answer = Some ''no answer'', source_documents = Some [chunk_a]\<rparr>
   \<and> query_papers rag_a \<lparr>query = '' '', filenames = Some [''a.pdf'']\<rparr>
     = Inr \<lparr>qr_message = ''no answer'',
            qr_sources = [\<lparr>src_content = ''alpha'', src_metadata = [(''filename'', ''a.pdf'')]\<rparr>]\<rparr>
   \<and> query_papers rag_empty \<lparr>query = '' '', filenames = Some [''a.pdf'']\<rparr>
     = Inl (HTTPException 503 ''RAG system not ready. Please upload and process a document.'')"
proof -
  have ch: "qa_chain rag_a = Some (echo_chain (store_of [chunk_a]))" by (simp add: rag_a_def)
  have out: "echo_chain (store_of [chunk_a]) '' '' = Inr \<lparr>answer = Some ''no answer'', source_documents = Some [chunk_a]\<rparr>"
    by (simp add: echo_chain_def store_of_def)
  have bl: "blank '' ''" by (simp add: blank_def)
  from query_papers_checks_filenames_only [where request = "\<lparr>query = ''dose?'', filenames = Some []\<rparr>" and rag = rag_a]
  have a: "query_papers rag_a \<lparr>query = ''dose?'', filenames = Some []\<rparr>
             = Inl (HTTPException 400 ''No papers specified for query'')"
    by simp
  from query_papers_checks_filenames_only [where request = "\<lparr>query = '' '', filenames = Some [''a.pdf'']\<rparr>"
       and f = "''a.pdf''" and fs = "[]" and rag = rag_a and chain = "echo_chain (store_of [chunk_a])"
       and out = "\<lparr>answer = Some ''no answer'', source_documents = Some [chunk_a]\<rparr>"] ch out
  have b: "query_papers rag_a \<lparr>query = '' '', filenames = Some [''a.pdf'']\<rparr>
     = Inr \<lparr>qr_message = ''no answer'',
            qr_sources = [\<lparr>src_content = ''alpha'', src_metadata = [(''filename'', ''a.pdf'')]\<rparr>]\<rparr>"
    by (simp add: chunk_a_def)
  from query_papers_checks_filenames_only [where request = "\<lparr>query = '' '', filenames = Some [''a.pdf'']\<rparr>"
       and f = "''a.pdf''" and fs = "[]" and rag = rag_empty]
  have c: "query_papers rag_empty \<lparr>query = '' '', filenames = Some [''a.pdf'']\<rparr>
     = Inl (HTTPException 503 ''RAG system not ready. Please upload and process a document.'')"
    by (simp add: rag_empty_def)
  from a bl out b c show ?thesis by blast
qed

subsection \<open>Deletion\<close>

lemma delete_absent_key: "map_of al k = None \<Longrightarrow> AList.delete k al = al"
  by (induction al) (auto simp: AList.delete_eq split: if_splits)

lemma update_vector_store_cases:
  "update_vector_store e rag pd = (rag', w) \<Longrightarrow>
     (all_processed_documents pd = [] \<longrightarrow> rag' = rag \<and> w = None)
     \<and> (all_processed_documents pd \<noteq> [] \<and> w = None \<longrightarrow>
          (\<exists>vs. create_vector_store_from_documents e (all_processed_documents pd) = Inr vs
                \<and> vector_store rag' = Some vs))"
  by (auto simp: update_vector_store_def Let_def split: sum.splits if_splits)

text \<open>
  Claim C10: \<open>delete_file\<close> judges existence by the file on disk. When the path of the
  file is absent it answers 404 and leaves the whole state, the corpus map included, as it
  was, even if the corpus has a record under that name; when the file is there and the
  corpus has no record under that name, the deletion succeeds, the file is gone and the
  corpus map is unchanged.
\<close>

theorem delete_file_judged_by_disk:
  "(disk s (os_path_join UPLOAD_DIR fn) = None \<longrightarrow>
      delete_file e s fn = (s, Inl (HTTPException 404 ''File not found'')))
   \<and> (disk s (os_path_join UPLOAD_DIR fn) = Some (File c) \<and> map_of (processed_documents s) fn = None \<longrightarrow>
        (\<exists>s' r. delete_file e s fn = (s', Inr r)
               \<and> disk s' (os_path_join UPLOAD_DIR fn) = None
               \<and> processed_documents s' = processed_documents s))"
  by (auto simp: delete_file_def Let_def os_path_exists_def os_remove_def split: prod.splits option.splits)

theorem delete_file_judged_by_disk_witness:
  "map_of (processed_documents state_orphans) ''b.pdf'' = Some [chunk_b]
   \<and> delete_file env0 state_orphans ''b.pdf'' = (state_orphans, Inl (HTTPException 404 ''File not found''))
   \<and> map_of (processed_documents state_orphans) ''x.pdf'' = None
   \<and> (\<exists>s' r. delete_file env0 state_orphans ''x.pdf'' = (s', Inr r)
            \<and> disk s' ''uploads/x.pdf'' = None
            \<and> processed_documents s' = [(''b.pdf'', [chunk_b])])"
  using delete_file_judged_by_disk [where s = state_orphans and fn = "''b.pdf''" and e = env0]
    delete_file_judged_by_disk [where s = state_orphans and fn = "''x.pdf''" and e = env0 and c = "''%PDF''"]
  by (simp add: state_orphans_def os_path_join_def UPLOAD_DIR_def)

text \<open>
  Claim C1 as stated fails where the deletion leaves the corpus empty: the rebuild is
  guarded by \<open>if all_processed_documents\<close>, so the store built from the deleted document
  stays live, although a store built from the remaining (no) chunks would differ.
\<close>

theorem delete_file_empty_corpus_keeps_index:
  "snd (delete_file env0 state_a ''a.pdf'') = Inr \<lparr>del_message = ''File deleted successfully'', del_warning = None\<rparr>
   \<and> processed_documents (fst (delete_file env0 state_a ''a.pdf'')) = []
   \<and> vector_store (rage_engine (fst (delete_file env0 state_a ''a.pdf''))) = Some (store_of [chunk_a])
   \<and> create_vector_store_from_documents env0 (all_processed_documents []) = Inr (store_of [])
   \<and> store_of [chunk_a] \<noteq> store_of []"
  by (simp add: delete_file_def Let_def os_path_exists_def os_remove_def os_path_join_def UPLOAD_DIR_def
        state_a_def rag_a_def update_vector_store_def env0_def store_of_def AList.delete_eq)

text \<open>
  Claim C1, amended: after a deletion that returns a response, the corpus map is the old
  one without the deleted name; if chunks remain and the response carries no warning, the
  live vector store is the one \<open>create_vector_store_from_documents\<close> builds from exactly
  the remaining chunks, in corpus order; if no chunk remains, no rebuild takes place and the
  engine is left as it was.
\<close>

theorem delete_file_rebuilds_from_remaining:
  assumes "delete_file e s fn = (s', Inr r)"
  shows "processed_documents s' = AList.delete fn (processed_documents s)
     \<and> (all_processed_documents (processed_documents s') \<noteq> [] \<and> del_warning r = None \<longrightarrow>
          (\<exists>vs. create_vector_store_from_documents e (all_processed_documents (processed_documents s')) = Inr vs
                \<and> vector_store (rage_engine s') = Some vs))
     \<and> (all_processed_documents (processed_documents s') = [] \<longrightarrow> rage_engine s' = rage_engine s)"
proof -
  let ?p = "os_path_join UPLOAD_DIR fn"
  let ?pd = "AList.delete fn (processed_documents s)"
  have pd_eq: "(if map_of (processed_documents s) fn \<noteq> None
                then AList.delete fn (processed_documents s) else processed_documents s) = ?pd"
    by (simp add: delete_absent_key)
  from assms obtain disk' where rm: "os_remove (disk s) ?p = Inr disk'"
    by (auto simp: delete_file_def Let_def split: if_splits sum.splits)
  obtain rag w where uvs: "update_vector_store e (rage_engine s) ?pd = (rag, w)"
    by (cases "update_vector_store e (rage_engine s) ?pd")
  from assms rm uvs pd_eq have s': "s' = s\<lparr>disk := disk', processed_documents := ?pd, rage_engine := rag\<rparr>"
    and r: "del_warning r = w"
    by (auto simp: delete_file_def Let_def split: if_splits option.splits)
  from update_vector_store_cases [OF uvs] s' r show ?thesis by auto
qed

theorem delete_file_rebuilds_from_remaining_witness:
  "snd (delete_file env0 state_ab ''a.pdf'') = Inr \<lparr>del_message = ''File deleted successfully'', del_warning = None\<rparr>
   \<and> processed_documents (fst (delete_file env0 state_ab ''a.pdf'')) = [(''b.pdf'', [chunk_b])]
   \<and> vector_store (rage_engine (fst (delete_file env0 state_ab ''a.pdf''))) = Some (store_of [chunk_b])
   \<and> rage_engine (fst (delete_file env0 state_a ''a.pdf'')) = rage_engine state_a"
proof -
  have h: "delete_file env0 state_ab ''a.pdf'' =
             (fst (delete_file env0 state_ab ''a.pdf''),
              Inr \<lparr>del_message = ''File deleted successfully'', del_warning = None\<rparr>)"
    by (simp add: prod_eq_iff delete_file_def Let_def os_path_exists_def os_remove_def os_path_join_def
          UPLOAD_DIR_def state_ab_def rag_a_def update_vector_store_def env0_def AList.delete_eq)
  have k: "delete_file env0 state_a ''a.pdf'' =
             (fst (delete_file env0 state_a ''a.pdf''),
              Inr \<lparr>del_message = ''File deleted successfully'', del_warning = None\<rparr>)"
    by (simp add: prod_eq_iff delete_file_def Let_def os_path_exists_def os_remove_def os_path_join_def
          UPLOAD_DIR_def state_a_def rag_a_def update_vector_store_def env0_def AList.delete_eq)
  note t1 = delete_file_rebuilds_from_remaining [OF h]
  note t2 = delete_file_rebuilds_from_remaining [OF k]
  have pd1: "AList.delete ''a.pdf'' (processed_documents state_ab) = [(''b.pdf'', [chunk_b])]"
    by (simp add: state_ab_def AList.delete_eq)
  have pd2: "AList.delete ''a.pdf'' (processed_documents state_a) = []"
    by (simp add: state_a_def AList.delete_eq)
  have cr: "create_vector_store_from_documents env0 docs = Inr (store_of docs)" for docs
    by (simp add: env0_def)
  from t1 pd1 have p1: "processed_documents (fst (delete_file env0 state_ab ''a.pdf'')) = [(''b.pdf'', [chunk_b])]"
    by simp
  have ne: "all_processed_documents (processed_documents (fst (delete_file env0 state_ab ''a.pdf''))) \<noteq> []"
    by (simp add: p1)
  from t1 have "all_processed_documents (processed_documents (fst (delete_file env0 state_ab ''a.pdf''))) \<noteq> []
        \<and> del_warning \<lparr>del_message = ''File deleted successfully'', del_warning = None\<rparr> = None \<longrightarrow>
      (\<exists>vs. create_vector_store_from_documents env0
                        (all_processed_documents (processed_documents (fst (delete_file env0 state_ab ''a.pdf'')))) = Inr vs
                  \<and> vector_store (rage_engine (fst (delete_file env0 state_ab ''a.pdf''))) = Some vs)"
    by blast
  with ne have "\<exists>vs. create_vector_store_from_documents env0
                        (all_processed_documents (processed_documents (fst (delete_file env0 state_ab ''a.pdf'')))) = Inr vs
                  \<and> vector_store (rage_engine (fst (delete_file env0 state_ab ''a.pdf''))) = Some vs"
    by simp
  then have p2: "vector_store (rage_engine (fst (delete_file env0 state_ab ''a.pdf''))) = Some (store_of [chunk_b])"
    by (auto simp: p1 cr)
  from t2 pd2 have p3: "rage_engine (fst (delete_file env0 state_a ''a.pdf'')) = rage_engine state_a"
    by simp
  from h have p0: "snd (delete_file env0 state_ab ''a.pdf'') = Inr \<lparr>del_message = ''File deleted successfully'', del_warning = None\<rparr>"
    by (metis snd_conv)
  from p0 p1 p2 p3 show ?thesis by blast
qed

subsection \<open>Upload\<close>



text \<open>
  An upload whose name leads into a directory that does not exist is not saved: the
  handler answers 500 and nothing changes.
\<close>

lemma upload_pdf_missing_directory:
  "upload_pdf env0 state_a ''20240101_120000'' upload_nested
     = (state_a, Inl (HTTPException 500 ''Error saving file: [Errno 2] No such file or directory''))"
  by (simp add: upload_pdf_def upload_nested_def endswith_def os_path_join_def UPLOAD_DIR_def
        write_file_def os_path_dirname_def state_a_def os_path_exists_def saving_failed_def Let_def)




subsection \<open>Startup\<close>

lemma step_invariant:
  assumes "step ev s = Some s'"
    and "startup_in_progress s = (pending_delayed_initialization s = 1)"
    and "pending_delayed_initialization s \<le> 1"
  shows "startup_in_progress s' = (pending_delayed_initialization s' = 1)
         \<and> pending_delayed_initialization s' \<le> 1"
  using assms
  by (cases ev)
     (auto simp: startup_event_def delayed_initialization_def load_faiss_index_background_def
        initialize_arxiv_search_background_def Let_def split: if_splits outcome.splits)

lemma run_invariant:
  "run evs s = Some s' \<Longrightarrow>
   startup_in_progress s = (pending_delayed_initialization s = 1) \<Longrightarrow>
   pending_delayed_initialization s \<le> 1 \<Longrightarrow>
   startup_in_progress s' = (pending_delayed_initialization s' = 1) \<and> pending_delayed_initialization s' \<le> 1"
proof (induction evs arbitrary: s)
  case Nil
  then show ?case by simp
next
  case (Cons ev evs)
  from Cons.prems(1) obtain s1 where st: "step ev s = Some s1" and rn: "run evs s1 = Some s'"
    by (auto split: option.splits)
  from step_invariant [OF st Cons.prems(2,3)] Cons.IH [OF rn] show ?case by blast
qed

text \<open>
  Claim C5 as stated fails: after \<open>startup_event\<close> and the run of
  \<open>delayed_initialization\<close> the flag is false while both subtasks, just created, are
  unsettled.
\<close>

theorem startup_flag_cleared_before_subtasks_settle:
  "run [StartupEvent, DelayedInitializationRuns] initial_startup_state
     = Some \<lparr>faiss_initialized = False, arxiv_initialized = False, startup_in_progress = False,
             pending_delayed_initialization = 0, pending_faiss_load = 1, pending_arxiv_init = 1\<rparr>
   \<and> \<not> flag_covers_subtasks \<lparr>faiss_initialized = False, arxiv_initialized = False, startup_in_progress = False,
             pending_delayed_initialization = 0, pending_faiss_load = 1, pending_arxiv_init = 1\<rparr>"
  by (simp add: initial_startup_state_def startup_event_def delayed_initialization_def flag_covers_subtasks_def Let_def)

text \<open>
  Claim C5, amended: \<open>startup_in_progress\<close> is true exactly while a
  \<open>delayed_initialization\<close> task is outstanding. The run of that task clears the flag
  right after creating the subtasks, which are then still pending; the settling of a
  subtask never changes the flag.
\<close>

theorem startup_flag_cleared_by_delayed_initialization:
  assumes "run evs initial_startup_state = Some s"
  shows "startup_in_progress s = (pending_delayed_initialization s > 0)
     \<and> (\<forall>s'. step DelayedInitializationRuns s = Some s' \<longrightarrow>
           \<not> startup_in_progress s'
           \<and> (\<not> faiss_initialized s \<longrightarrow> pending_faiss_load s' > 0)
           \<and> (\<not> arxiv_initialized s \<longrightarrow> pending_arxiv_init s' > 0))
     \<and> (\<forall>out s'. step (FaissLoadSettles out) s = Some s' \<or> step (ArxivInitSettles out) s = Some s' \<longrightarrow>
           startup_in_progress s' = startup_in_progress s)"
proof -
  have "startup_in_progress s = (pending_delayed_initialization s = 1) \<and> pending_delayed_initialization s \<le> 1"
    by (rule run_invariant [OF assms]) (simp_all add: initial_startup_state_def)
  then have a: "startup_in_progress s = (pending_delayed_initialization s > 0)" by auto
  have b: "\<forall>s'. step DelayedInitializationRuns s = Some s' \<longrightarrow>
           \<not> startup_in_progress s'
           \<and> (\<not> faiss_initialized s \<longrightarrow> pending_faiss_load s' > 0)
           \<and> (\<not> arxiv_initialized s \<longrightarrow> pending_arxiv_init s' > 0)"
    by (auto simp: delayed_initialization_def Let_def split: if_splits)
  have c: "\<forall>out s'. step (FaissLoadSettles out) s = Some s' \<or> step (ArxivInitSettles out) s = Some s' \<longrightarrow>
           startup_in_progress s' = startup_in_progress s"
    by (auto simp: load_faiss_index_background_def initialize_arxiv_search_background_def Let_def
          split: if_splits outcome.splits)
  from a b c show ?thesis by blast
qed

theorem startup_flag_cleared_by_delayed_initialization_witness:
  "run [StartupEvent] initial_startup_state = Some (startup_event initial_startup_state)
   \<and> startup_in_progress (startup_event initial_startup_state)
   \<and> pending_delayed_initialization (startup_event initial_startup_state) > 0
   \<and> \<not> startup_in_progress (delayed_initialization (startup_event initial_startup_state))
   \<and> pending_faiss_load (delayed_initialization (startup_event initial_startup_state)) > 0
   \<and> pending_arxiv_init (delayed_initialization (startup_event initial_startup_state)) > 0"
proof -
  have h: "run [StartupEvent] initial_startup_state = Some (startup_event initial_startup_state)"
    by simp
  show ?thesis
    using startup_flag_cleared_by_delayed_initialization [OF h] h
    by (simp add: initial_startup_state_def startup_event_def delayed_initialization_def Let_def)
qed

subsection \<open>Sorting by similarity\<close>

text \<open>
  \<open>sort_reverse\<close> is determined by three facts: it permutes its input, its result
  descends in the key, and entries of equal key keep their order.
\<close>

lemma mset_sort_reverse: "mset (sort_reverse key xs) = mset xs"
  by (simp add: sort_reverse_def)

lemma set_sort_reverse: "set (sort_reverse key xs) = set xs"
  by (simp add: sort_reverse_def)

lemma length_sort_reverse: "length (sort_reverse key xs) = length xs"
  by (simp add: sort_reverse_def)

lemma sorted_sort_reverse: "sorted_wrt (\<lambda>a b. key a \<ge> key b) (sort_reverse key xs)"
proof -
  have "sorted (map (\<lambda>x. - key x) (sort_key (\<lambda>x. - key x) xs))"
    by (rule sorted_sort_key)
  then show ?thesis
    by (simp add: sort_reverse_def sorted_wrt_map)
qed

lemma sort_reverse_stable:
  "filter (\<lambda>y. key y = v) (sort_reverse key xs) = filter (\<lambda>y. key y = v) xs"
proof -
  have "filter (\<lambda>y. - key y = - v) (sort_key (\<lambda>x. - key x) xs) = filter (\<lambda>y. - key y = - v) xs"
    by (rule sort_key_stable)
  then show ?thesis by (simp add: sort_reverse_def)
qed

lemma score_chunks_all_embedded:
  "\<forall>doc\<in>set docs. \<exists>v. aembed_query e (page_content doc) = Inr v \<Longrightarrow>
   score_chunks e q docs = Inr (map (scored_entry e q) docs)"
  by (induction docs) (auto simp: scored_entry_def)

lemma score_chunks_sources:
  "score_chunks e q docs = Inr sims \<Longrightarrow>
   \<forall>c\<in>set sims. \<exists>doc\<in>set docs. content c = page_content doc \<and> chunk_metadata c = metadata doc"
  by (induction docs arbitrary: sims) (auto split: sum.splits)

subsection \<open>Sentence attribution\<close>

text \<open>
  Claim C2: for a document of the corpus, when the embedder answers for the sentence and
  for every chunk, \<open>get_sentence_explanation\<close> returns the first three entries of a
  ranking of the document's scored chunks (each chunk with the cosine similarity of the
  sentence embedding and its own embedding) that is a permutation of them, descends in
  similarity and keeps the chunk order among equal similarities; there are
  \<open>min 3 (length chunks)\<close> of them, and the confidence is their arithmetic mean, or 0 for
  a document without chunks.
\<close>

theorem get_sentence_explanation_top3_mean:
  assumes "map_of pd fn = Some chunks"
    and "aembed_query e sentence = Inr q"
    and "\<forall>doc\<in>set chunks. \<exists>v. aembed_query e (page_content doc) = Inr v"
  shows "\<exists>r ranked. get_sentence_explanation e pd \<lparr>er_filename = fn, er_sentence = sentence\<rparr> = Inr r
      \<and> mset ranked = mset (map (scored_entry e q) chunks)
      \<and> sorted_wrt (\<lambda>a b. similarity a \<ge> similarity b) ranked
      \<and> (\<forall>v. filter (\<lambda>c. similarity c = v) ranked
               = filter (\<lambda>c. similarity c = v) (map (scored_entry e q) chunks))
      \<and> source_chunks r = take 3 ranked
      \<and> length (source_chunks r) = min 3 (length chunks)
      \<and> confidence r = (if chunks = [] then 0
                         else sum_list (map similarity (source_chunks r)) / real (length (source_chunks r)))"
proof -
  let ?sims = "map (scored_entry e q) chunks"
  let ?ranked = "sort_reverse similarity ?sims"
  let ?r = "\<lparr>source_chunks = take 3 ?ranked,
             confidence = (if take 3 ?ranked \<noteq> []
                           then sum_list (map similarity (take 3 ?ranked)) / real (length (take 3 ?ranked))
                           else 0)\<rparr>"
  have sc: "score_chunks e q chunks = Inr ?sims"
    by (rule score_chunks_all_embedded [OF assms(3)])
  have res: "get_sentence_explanation e pd \<lparr>er_filename = fn, er_sentence = sentence\<rparr> = Inr ?r"
    using assms(1,2) sc by (simp add: get_sentence_explanation_def Let_def)
  have len: "length (take 3 ?ranked) = min 3 (length chunks)"
    by (simp add: length_sort_reverse min.commute)
  have empty: "(take 3 ?ranked = []) = (chunks = [])"
    using len by (cases chunks) (auto simp: min_def split: if_splits)
  have conf: "confidence ?r = (if chunks = [] then 0
                else sum_list (map similarity (source_chunks ?r)) / real (length (source_chunks ?r)))"
    using empty by simp
  show ?thesis
    using res mset_sort_reverse [of similarity ?sims] sorted_sort_reverse [of similarity ?sims]
      sort_reverse_stable [of similarity _ ?sims] len conf
    by (intro exI [of _ ?r] exI [of _ ?ranked]) simp
qed

text \<open>
  The scenario of the specification: similarities 0.9, 0.4, 0.8, 0.1 give the chunks with
  similarities 0.9, 0.8, 0.4 and the confidence 0.7.
\<close>

lemma doc_d1_example:
  "get_sentence_explanation env0 corpus_d1 \<lparr>er_filename = ''D1'', er_sentence = ''probe''\<rparr>
     = Inr \<lparr>source_chunks = [\<lparr>content = ''c0'', similarity = 9/10, chunk_metadata = [(''filename'', ''D1'')]\<rparr>,
                             \<lparr>content = ''c2'', similarity = 8/10, chunk_metadata = [(''filename'', ''D1'')]\<rparr>,
                             \<lparr>content = ''c1'', similarity = 4/10, chunk_metadata = [(''filename'', ''D1'')]\<rparr>],
            confidence = 7/10\<rparr>"
  by (simp add: get_sentence_explanation_def corpus_d1_def doc_d1_def env0_def embed0_def dot_def
        sort_reverse_def Let_def)

theorem get_sentence_explanation_top3_mean_witness:
  "map_of corpus_d1 ''D1'' = Some doc_d1
   \<and> aembed_query env0 ''probe'' = Inr [1, 0, 0, 0]
   \<and> map similarity (map (scored_entry env0 [1, 0, 0, 0]) doc_d1) = [9/10, 4/10, 8/10, 1/10]
   \<and> get_sentence_explanation env0 corpus_d1 \<lparr>er_filename = ''D1'', er_sentence = ''probe''\<rparr>
     = Inr \<lparr>source_chunks = [\<lparr>content = ''c0'', similarity = 9/10, chunk_metadata = [(''filename'', ''D1'')]\<rparr>,
                             \<lparr>content = ''c2'', similarity = 8/10, chunk_metadata = [(''filename'', ''D1'')]\<rparr>,
                             \<lparr>content = ''c1'', similarity = 4/10, chunk_metadata = [(''filename'', ''D1'')]\<rparr>],
            confidence = 7/10\<rparr>"
proof -
  have h1: "map_of corpus_d1 ''D1'' = Some doc_d1"
    by (simp add: corpus_d1_def)
  have h2: "aembed_query env0 ''probe'' = Inr [1, 0, 0, 0]"
    by (simp add: env0_def embed0_def)
  have h3: "\<forall>doc\<in>set doc_d1. \<exists>v. aembed_query env0 (page_content doc) = Inr v"
    by (simp add: doc_d1_def env0_def embed0_def)
  have sims: "map similarity (map (scored_entry env0 [1, 0, 0, 0]) doc_d1) = [9/10, 4/10, 8/10, 1/10]"
    by (simp add: doc_d1_def scored_entry_def env0_def embed0_def dot_def)
  from get_sentence_explanation_top3_mean [OF h1 h2 h3]
  obtain r ranked where "get_sentence_explanation env0 corpus_d1 \<lparr>er_filename = ''D1'', er_sentence = ''probe''\<rparr> = Inr r"
    and "source_chunks r = take 3 ranked"
    by blast
  with doc_d1_example h1 h2 sims show ?thesis by simp
qed

subsection \<open>Queries scoped to one document\<close>

text \<open>
  Claim C8: the chunks \<open>query_document\<close> retrieves for a document of the corpus (at most
  five, handed to \<open>answer_with_citations\<close>) each carry the text and the metadata of a
  chunk stored under that document id, so whatever metadata key holds the document id on
  all chunks of the document holds it on every retrieved chunk; the response names the
  requested document id.
\<close>

theorem query_document_only_own_chunks:
  assumes "map_of pd (qd_document_id request) = Some doc_chunks"
    and "relevant_chunks e pd request = Inr chunks"
  shows "length chunks \<le> 5
     \<and> (\<forall>c\<in>set chunks. \<exists>doc\<in>set doc_chunks. content c = page_content doc \<and> chunk_metadata c = metadata doc)
     \<and> (\<forall>key. (\<forall>doc\<in>set doc_chunks. map_of (metadata doc) key = Some (qd_document_id request)) \<longrightarrow>
               (\<forall>c\<in>set chunks. map_of (chunk_metadata c) key = Some (qd_document_id request)))
     \<and> (\<forall>resp. query_document e pd request = Inr resp \<longrightarrow>
               qd_response_document_id resp = qd_document_id request
               \<and> (\<exists>ar. answer_with_citations e (qd_question request) chunks = Inr ar))"
proof -
  from assms obtain q sims where sc: "score_chunks e q doc_chunks = Inr sims"
    and ch: "chunks = take 5 (sort_reverse similarity sims)"
    by (auto simp: relevant_chunks_def split: sum.splits)
  have sub: "set chunks \<subseteq> set sims"
    unfolding ch using set_take_subset [of 5 "sort_reverse similarity sims"]
    by (simp add: set_sort_reverse)
  have own: "\<forall>c\<in>set chunks. \<exists>doc\<in>set doc_chunks. content c = page_content doc \<and> chunk_metadata c = metadata doc"
    using score_chunks_sources [OF sc] sub by blast
  have len: "length chunks \<le> 5" unfolding ch by simp
  have meta: "\<forall>key. (\<forall>doc\<in>set doc_chunks. map_of (metadata doc) key = Some (qd_document_id request)) \<longrightarrow>
               (\<forall>c\<in>set chunks. map_of (chunk_metadata c) key = Some (qd_document_id request))"
    using own by metis
  have resp: "\<forall>resp. query_document e pd request = Inr resp \<longrightarrow>
               qd_response_document_id resp = qd_document_id request
               \<and> (\<exists>ar. answer_with_citations e (qd_question request) chunks = Inr ar)"
    using assms(2) by (auto simp: query_document_def split: sum.splits)
  from len own meta resp show ?thesis by blast
qed

theorem query_document_only_own_chunks_witness:
  "relevant_chunks env0 corpus_d1 \<lparr>qd_question = ''probe'', qd_document_id = ''D1''\<rparr>
     = Inr [\<lparr>content = ''c0'', similarity = 9/10, chunk_metadata = [(''filename'', ''D1'')]\<rparr>,
            \<lparr>content = ''c2'', similarity = 8/10, chunk_metadata = [(''filename'', ''D1'')]\<rparr>,
            \<lparr>content = ''c1'', similarity = 4/10, chunk_metadata = [(''filename'', ''D1'')]\<rparr>,
            \<lparr>content = ''c3'', similarity = 1/10, chunk_metadata = [(''filename'', ''D1'')]\<rparr>]
   \<and> list_all (\<lambda>doc. map_of (metadata doc) ''filename'' = Some ''D1'') doc_d1
   \<and> list_all (\<lambda>c. map_of (chunk_metadata c) ''filename'' = Some ''D1'')
        (projr (relevant_chunks env0 corpus_d1 \<lparr>qd_question = ''probe'', qd_document_id = ''D1''\<rparr>))
   \<and> qd_response_document_id (projr (query_document env0 corpus_d1 \<lparr>qd_question = ''probe'', qd_document_id = ''D1''\<rparr>)) = ''D1''"
proof -
  let ?req = "\<lparr>qd_question = ''probe'', qd_document_id = ''D1''\<rparr>"
  let ?chunks = "[\<lparr>content = ''c0'', similarity = 9/10, chunk_metadata = [(''filename'', ''D1'')]\<rparr>,
            \<lparr>content = ''c2'', similarity = 8/10, chunk_metadata = [(''filename'', ''D1'')]\<rparr>,
            \<lparr>content = ''c1'', similarity = 4/10, chunk_metadata = [(''filename'', ''D1'')]\<rparr>,
            \<lparr>content = ''c3'', similarity = 1/10, chunk_metadata = [(''filename'', ''D1'')]\<rparr>]"
  have h1: "map_of corpus_d1 (qd_document_id ?req) = Some doc_d1"
    by (simp add: corpus_d1_def)
  have h2: "relevant_chunks env0 corpus_d1 ?req = Inr ?chunks"
    by (simp add: relevant_chunks_def corpus_d1_def doc_d1_def env0_def embed0_def dot_def
          sort_reverse_def)
  have h3: "list_all (\<lambda>doc. map_of (metadata doc) ''filename'' = Some ''D1'') doc_d1"
    by (simp add: doc_d1_def)
  have h4: "query_document env0 corpus_d1 ?req
             = Inr \<lparr>qd_answer = ''ok'', qd_citations = [''c0'', ''c2'', ''c1'', ''c3''], qd_response_document_id = ''D1''\<rparr>"
    by (simp add: query_document_def h2) (simp add: env0_def)
  from query_document_only_own_chunks [OF h1 h2] h3
  have "\<forall>c\<in>set ?chunks. map_of (chunk_metadata c) ''filename'' = Some ''D1''"
    by (simp add: list_all_iff)
  with h2 h3 h4 show ?thesis by (simp add: list_all_iff)
qed

subsection \<open>Related documents\<close>

lemma related_loop_eq:
  "related_loop filename T ds = map (related_entry_of T) (overlapping ds filename T)"
proof (induction ds)
  case Nil
  then show ?case by (simp add: overlapping_def)
next
  case (Cons p ds)
  obtain other info where p: "p = (other, info)" by (cases p)
  have "(card (T \<inter> set (topics info)) > 0) = (T \<inter> set (topics info) \<noteq> {})"
    by (simp add: card_gt_0_iff)
  with Cons show ?case
    by (simp add: p overlapping_def related_entry_of_def jaccard_def)
qed

lemma jaccard_commute: "jaccard A B = jaccard B A"
  by (simp add: jaccard_def Int_commute Un_commute)

lemma d1_d2_example:
  "get_related_documents sections_d1_d2 ''D1''
     = Inr [\<lparr>rel_filename = ''D2'', rel_title = ''D2'', common_topics = {''therapy''}, similarity_score = 1/3\<rparr>]"
  by (simp add: get_related_documents_def sections_d1_d2_def info_of_def title_of_def sort_reverse_def Let_def card_insert_if)

lemma ties_example:
  "get_related_documents sections_ties ''D1''
     = Inr [\<lparr>rel_filename = ''D3'', rel_title = ''D3'', common_topics = {''therapy''}, similarity_score = 1/2\<rparr>,
            \<lparr>rel_filename = ''D4'', rel_title = ''D4'', common_topics = {''therapy''}, similarity_score = 1/2\<rparr>,
            \<lparr>rel_filename = ''D2'', rel_title = ''D2'', common_topics = {''therapy''}, similarity_score = 1/2\<rparr>]"
  by (simp add: get_related_documents_def sections_ties_def info_of_def title_of_def sort_reverse_def Let_def card_insert_if)

text \<open>
  Claim C3 as stated fails on the tie-break: three documents of equal score come back in
  the order the map holds them, D3, D4, D2, which neither ascends nor descends in the
  document id.
\<close>

theorem get_related_documents_ties_keep_map_order:
  "get_related_documents sections_ties ''D1''
     = Inr [\<lparr>rel_filename = ''D3'', rel_title = ''D3'', common_topics = {''therapy''}, similarity_score = 1/2\<rparr>,
            \<lparr>rel_filename = ''D4'', rel_title = ''D4'', common_topics = {''therapy''}, similarity_score = 1/2\<rparr>,
            \<lparr>rel_filename = ''D2'', rel_title = ''D2'', common_topics = {''therapy''}, similarity_score = 1/2\<rparr>]
   \<and> \<not> ties_broken_by_document_id
         [\<lparr>rel_filename = ''D3'', rel_title = ''D3'', common_topics = {''therapy''}, similarity_score = 1/2\<rparr>,
          \<lparr>rel_filename = ''D4'', rel_title = ''D4'', common_topics = {''therapy''}, similarity_score = 1/2\<rparr>,
          \<lparr>rel_filename = ''D2'', rel_title = ''D2'', common_topics = {''therapy''}, similarity_score = 1/2\<rparr>]"
  by (simp add: ties_example ties_broken_by_document_id_def less_char_def)

text \<open>
  Claim C3, amended: for a document A of the map, \<open>get_related_documents\<close> returns the
  first five entries of a ranking of the other documents that share a topic with A, each
  with the Jaccard index of the two topic sets as its score; the ranking is a permutation
  of these entries, descends in the score, and keeps the order of the map among equal
  scores.
\<close>

theorem get_related_documents_ranking:
  assumes "map_of ds A = Some infoA"
  shows "\<exists>r ranked. get_related_documents ds A = Inr r
     \<and> mset ranked = mset (map (related_entry_of (set (topics infoA))) (overlapping ds A (set (topics infoA))))
     \<and> sorted_wrt (\<lambda>a b. similarity_score a \<ge> similarity_score b) ranked
     \<and> (\<forall>v. filter (\<lambda>x. similarity_score x = v) ranked
              = filter (\<lambda>x. similarity_score x = v)
                  (map (related_entry_of (set (topics infoA))) (overlapping ds A (set (topics infoA)))))
     \<and> r = take 5 ranked"
proof -
  let ?T = "set (topics infoA)"
  let ?cands = "map (related_entry_of ?T) (overlapping ds A ?T)"
  let ?ranked = "sort_reverse similarity_score ?cands"
  have none: "?T = {} \<Longrightarrow> ?cands = []"
    by (simp add: overlapping_def)
  have res: "get_related_documents ds A = Inr (take 5 ?ranked)"
  proof (cases "?T = {}")
    case True
    with none have "?ranked = []" by (simp add: sort_reverse_def)
    with True assms show ?thesis by (simp add: get_related_documents_def Let_def)
  next
    case False
    with assms show ?thesis
      by (simp add: get_related_documents_def related_loop_eq Let_def)
  qed
  show ?thesis
    using res mset_sort_reverse [of similarity_score ?cands] sorted_sort_reverse [of similarity_score ?cands]
      sort_reverse_stable [of similarity_score _ ?cands]
    by (intro exI [of _ "take 5 ?ranked"] exI [of _ ?ranked]) simp
qed

text \<open>
  The scenario of the specification: D1 with topics cancer and therapy, D2 with therapy and
  genomics; the related documents of D1 are D2 alone, common topic therapy, score 1/3.
\<close>

theorem get_related_documents_ranking_witness:
  "map_of sections_d1_d2 ''D1'' = Some (info_of [''cancer'', ''therapy''])
   \<and> get_related_documents sections_d1_d2 ''D1''
     = Inr [\<lparr>rel_filename = ''D2'', rel_title = ''D2'', common_topics = {''therapy''}, similarity_score = 1/3\<rparr>]
   \<and> jaccard {''cancer'', ''therapy''} {''therapy'', ''genomics''} = 1/3"
proof -
  have h: "map_of sections_d1_d2 ''D1'' = Some (info_of [''cancer'', ''therapy''])"
    by (simp add: sections_d1_d2_def)
  have j: "jaccard {''cancer'', ''therapy''} {''therapy'', ''genomics''} = 1/3"
    by (simp add: jaccard_def card_insert_if)
  from get_related_documents_ranking [OF h]
  obtain r ranked where "get_related_documents sections_d1_d2 ''D1'' = Inr r" and "r = take 5 ranked"
    by blast
  with d1_d2_example h j show ?thesis by simp
qed

text \<open>
  Claim C4 as stated fails under the truncation to five: B is in the list of A with score
  1/3, and A is not in the list of B, whose five places are taken by documents of score 1.
\<close>

theorem related_not_symmetric_when_truncated:
  "get_related_documents sections_seven ''A''
     = Inr [\<lparr>rel_filename = ''B'', rel_title = ''B'', common_topics = {''t''}, similarity_score = 1/3\<rparr>,
            \<lparr>rel_filename = ''C1'', rel_title = ''C1'', common_topics = {''t''}, similarity_score = 1/3\<rparr>,
            \<lparr>rel_filename = ''C2'', rel_title = ''C2'', common_topics = {''t''}, similarity_score = 1/3\<rparr>,
            \<lparr>rel_filename = ''C3'', rel_title = ''C3'', common_topics = {''t''}, similarity_score = 1/3\<rparr>,
            \<lparr>rel_filename = ''C4'', rel_title = ''C4'', common_topics = {''t''}, similarity_score = 1/3\<rparr>]
   \<and> get_related_documents sections_seven ''B''
     = Inr [\<lparr>rel_filename = ''C1'', rel_title = ''C1'', common_topics = {''t'', ''u''}, similarity_score = 1\<rparr>,
            \<lparr>rel_filename = ''C2'', rel_title = ''C2'', common_topics = {''t'', ''u''}, similarity_score = 1\<rparr>,
            \<lparr>rel_filename = ''C3'', rel_title = ''C3'', common_topics = {''t'', ''u''}, similarity_score = 1\<rparr>,
            \<lparr>rel_filename = ''C4'', rel_title = ''C4'', common_topics = {''t'', ''u''}, similarity_score = 1\<rparr>,
            \<lparr>rel_filename = ''C5'', rel_title = ''C5'', common_topics = {''t'', ''u''}, similarity_score = 1\<rparr>]"
  by (simp add: get_related_documents_def sections_seven_def info_of_def title_of_def sort_reverse_def
        Let_def card_insert_if insert_commute)

text \<open>
  Claim C4, amended: in a map with distinct keys, if B appears in the list of A with score
  s and at most five other documents share a topic with B (so the list of B is not
  truncated), then A appears in the list of B with the same score s.
\<close>

theorem related_symmetric_unless_truncated:
  assumes "distinct (map fst ds)"
    and "get_related_documents ds A = Inr rA"
    and "entry \<in> set rA"
    and "map_of ds (rel_filename entry) = Some infoB"
    and "length (overlapping ds (rel_filename entry) (set (topics infoB))) \<le> 5"
  shows "\<exists>rB entry'. get_related_documents ds (rel_filename entry) = Inr rB
           \<and> entry' \<in> set rB
           \<and> rel_filename entry' = A
           \<and> similarity_score entry' = similarity_score entry"
proof -
  let ?B = "rel_filename entry"
  let ?TB = "set (topics infoB)"
  from assms(2) obtain infoA where mA: "map_of ds A = Some infoA"
    by (auto simp: get_related_documents_def split: option.splits)
  let ?TA = "set (topics infoA)"
  have neA: "?TA \<noteq> {}"
  proof
    assume "?TA = {}"
    with assms(2) mA have "rA = []" by (simp add: get_related_documents_def Let_def)
    with assms(3) show False by simp
  qed
  with assms(2) mA have rA: "rA = take 5 (sort_reverse similarity_score (related_loop A ?TA ds))"
    by (simp add: get_related_documents_def Let_def)
  have "entry \<in> set (sort_reverse similarity_score (related_loop A ?TA ds))"
    using assms(3) unfolding rA by (rule in_set_takeD)
  then have "entry \<in> set (map (related_entry_of ?TA) (overlapping ds A ?TA))"
    by (simp add: set_sort_reverse related_loop_eq)
  then obtain other where o1: "other \<in> set ds" and o2: "fst other \<noteq> A"
    and o3: "?TA \<inter> set (topics (snd other)) \<noteq> {}" and o4: "entry = related_entry_of ?TA other"
    by (auto simp: overlapping_def)
  have B: "?B = fst other" by (simp add: o4 related_entry_of_def)
  have "map_of ds (fst other) = Some (snd other)"
    using assms(1) o1 by (cases other) simp
  with assms(4) B have iB: "infoB = snd other" by simp
  have neB: "?TB \<noteq> {}" using o3 iB by auto
  have inA: "(A, infoA) \<in> set ds" by (rule map_of_SomeD [OF mA])
  have "(A, infoA) \<in> set (overlapping ds ?B ?TB)"
    using inA o2 o3 B iB by (auto simp: overlapping_def)
  then have mem: "related_entry_of ?TB (A, infoA) \<in> set (sort_reverse similarity_score (related_loop ?B ?TB ds))"
    by (simp add: set_sort_reverse related_loop_eq)
  have "length (sort_reverse similarity_score (related_loop ?B ?TB ds)) \<le> 5"
    using assms(5) by (simp add: length_sort_reverse related_loop_eq)
  then have full: "take 5 (sort_reverse similarity_score (related_loop ?B ?TB ds))
                   = sort_reverse similarity_score (related_loop ?B ?TB ds)"
    by simp
  have rB: "get_related_documents ds ?B = Inr (sort_reverse similarity_score (related_loop ?B ?TB ds))"
    using assms(4) neB full by (simp add: get_related_documents_def Let_def)
  have sc: "similarity_score (related_entry_of ?TB (A, infoA)) = similarity_score entry"
    by (simp add: o4 iB related_entry_of_def jaccard_commute)
  have nm: "rel_filename (related_entry_of ?TB (A, infoA)) = A"
    by (simp add: related_entry_of_def)
  from rB mem nm sc show ?thesis by blast
qed

theorem related_symmetric_unless_truncated_witness:
  "distinct (map fst sections_d1_d2)
   \<and> get_related_documents sections_d1_d2 ''D1''
       = Inr [\<lparr>rel_filename = ''D2'', rel_title = ''D2'', common_topics = {''therapy''}, similarity_score = 1/3\<rparr>]
   \<and> length (overlapping sections_d1_d2 ''D2'' (set [''therapy'', ''genomics''])) \<le> 5
   \<and> (\<exists>rB entry'. get_related_documents sections_d1_d2 ''D2'' = Inr rB
          \<and> entry' \<in> set rB \<and> rel_filename entry' = ''D1'' \<and> similarity_score entry' = 1/3)"
proof -
  let ?e = "\<lparr>rel_filename = ''D2'', rel_title = ''D2'', common_topics = {''therapy''}, similarity_score = 1/3\<rparr>"
  have h1: "distinct (map fst sections_d1_d2)"
    by (simp add: sections_d1_d2_def)
  have h3: "?e \<in> set [?e]" by simp
  have h4: "map_of sections_d1_d2 (rel_filename ?e) = Some (info_of [''therapy'', ''genomics''])"
    by (simp add: sections_d1_d2_def)
  have h5: "length (overlapping sections_d1_d2 (rel_filename ?e) (set (topics (info_of [''therapy'', ''genomics''])))) \<le> 5"
    by (simp add: overlapping_def sections_d1_d2_def)
  have h5': "length (overlapping sections_d1_d2 ''D2'' (set [''therapy'', ''genomics''])) \<le> 5"
    by (simp add: overlapping_def sections_d1_d2_def)
  from related_symmetric_unless_truncated [OF h1 d1_d2_example h3 h4 h5]
  have "\<exists>rB entry'. get_related_documents sections_d1_d2 ''D2'' = Inr rB
          \<and> entry' \<in> set rB \<and> rel_filename entry' = ''D1'' \<and> similarity_score entry' = 1/3"
    by simp
  with h1 d1_d2_example h5' show ?thesis by blast
qed

end
